theory Spec2Isabelle
  imports Complex_Main "HOL-Library.Word" "HOL-Library.Log_Nat"
begin

unbundle bit_operations_syntax

section \<open>Double-precision numbers\<close>

text \<open>
  A C \<^verbatim>\<open>double\<close> is an IEEE 754 binary64 number: a finite number, an infinity or a
  NaN. The model keeps the value only: the two zeros are one value (no comparison or
  conversion of the library tells them apart), and so are all NaNs. A finite value is a
  real number; the doubles proper are the values that rounding leaves as they are
  (\<open>is_double\<close>). Every operation rounds its exact result to a double; no intermediate
  result is kept in a wider format.
\<close>

datatype double = Finite real | PInf | NInf | NaN

definition pow2 :: "int \<Rightarrow> real" where
  "pow2 e = 2 powi e"

text \<open>
  \<open>ilog2 x\<close> is the binary exponent of a positive \<open>x\<close>: the \<open>k\<close> with
  \<open>2\<^sup>k \<le> x < 2\<^sup>k\<^sup>+\<^sup>1\<close>. It is computed from the bit length of the integer part of \<open>x\<close>
  or of its inverse.
\<close>

definition ilog2 :: "real \<Rightarrow> int" where
  "ilog2 x = (if 1 \<le> x then bitlen \<lfloor>x\<rfloor> - 1
              else let n = bitlen \<lfloor>1 / x\<rfloor> - 1
                   in if 1 / x = pow2 n then - n else - n - 1)"

text \<open>Rounding to the nearest integer, a tie going to the even one.\<close>

definition round_even :: "real \<Rightarrow> int" where
  "round_even y = (let f = \<lfloor>y\<rfloor>; d = y - of_int f
                   in if d < 1 / 2 then f else if 1 / 2 < d then f + 1
                      else if even f then f else f + 1)"

definition DBL_MAX :: real where
  "DBL_MAX = (2 ^ 53 - 1) * 2 ^ 971"

text \<open>
  Rounding of a real number to the nearest double, ties to even, the rounding mode in
  which C programs run. The spacing of the doubles around \<open>x\<close> is \<open>2\<^sup>e\<close>, with 53
  significant bits and the exponent bounded below by the subnormal range; a result
  above the largest double is an infinity.
\<close>

definition round_double :: "real \<Rightarrow> double" where
  "round_double x =
     (if x = 0 then Finite 0
      else let e = max (ilog2 \<bar>x\<bar> - 52) (- 1074);
               y = of_int (round_even (\<bar>x\<bar> / pow2 e)) * pow2 e
           in if DBL_MAX < y then (if 0 < x then PInf else NInf)
              else Finite (if 0 < x then y else - y))"

definition is_double :: "double \<Rightarrow> bool" where
  "is_double d = (case d of Finite x \<Rightarrow> round_double x = Finite x | _ \<Rightarrow> True)"

text \<open>
  A decimal literal of the source denotes the double nearest to it. An integer literal
  below \<open>2\<^sup>5\<^sup>3\<close> and the literal \<^verbatim>\<open>31.5\<close> are doubles themselves and are written
  \<open>Finite\<close> directly.
\<close>

definition dbl :: "real \<Rightarrow> double" where
  "dbl x = round_double x"

definition double_of_int :: "int \<Rightarrow> double" where
  "double_of_int n = round_double (of_int n)"

text \<open>The operators \<^verbatim>\<open>+\<close>, \<^verbatim>\<open>-\<close>, \<^verbatim>\<open>*\<close>, \<^verbatim>\<open><\<close>, \<^verbatim>\<open>>\<close> on doubles, and \<^verbatim>\<open>fabs\<close>.\<close>

fun dadd :: "double \<Rightarrow> double \<Rightarrow> double" where
  "dadd (Finite x) (Finite y) = round_double (x + y)"
| "dadd NaN b = NaN"
| "dadd a NaN = NaN"
| "dadd PInf NInf = NaN"
| "dadd NInf PInf = NaN"
| "dadd PInf b = PInf"
| "dadd NInf b = NInf"
| "dadd (Finite x) PInf = PInf"
| "dadd (Finite x) NInf = NInf"

fun dsub :: "double \<Rightarrow> double \<Rightarrow> double" where
  "dsub (Finite x) (Finite y) = round_double (x - y)"
| "dsub NaN b = NaN"
| "dsub a NaN = NaN"
| "dsub PInf PInf = NaN"
| "dsub NInf NInf = NaN"
| "dsub PInf b = PInf"
| "dsub NInf b = NInf"
| "dsub (Finite x) PInf = NInf"
| "dsub (Finite x) NInf = PInf"

fun dmul :: "double \<Rightarrow> double \<Rightarrow> double" where
  "dmul (Finite x) (Finite y) = round_double (x * y)"
| "dmul NaN b = NaN"
| "dmul a NaN = NaN"
| "dmul PInf PInf = PInf"
| "dmul PInf NInf = NInf"
| "dmul NInf PInf = NInf"
| "dmul NInf NInf = PInf"
| "dmul PInf (Finite y) = (if y = 0 then NaN else if 0 < y then PInf else NInf)"
| "dmul NInf (Finite y) = (if y = 0 then NaN else if 0 < y then NInf else PInf)"
| "dmul (Finite x) PInf = (if x = 0 then NaN else if 0 < x then PInf else NInf)"
| "dmul (Finite x) NInf = (if x = 0 then NaN else if 0 < x then NInf else PInf)"

fun fabs :: "double \<Rightarrow> double" where
  "fabs (Finite x) = Finite \<bar>x\<bar>"
| "fabs PInf = PInf"
| "fabs NInf = PInf"
| "fabs NaN = NaN"

fun dlt :: "double \<Rightarrow> double \<Rightarrow> bool" where
  "dlt (Finite x) (Finite y) = (x < y)"
| "dlt NaN b = False"
| "dlt a NaN = False"
| "dlt a NInf = False"
| "dlt PInf b = False"
| "dlt NInf b = True"
| "dlt (Finite x) PInf = True"

definition dgt :: "double \<Rightarrow> double \<Rightarrow> bool" where
  "dgt a b = dlt b a"

text \<open>
  \<open>dle\<close> is the operator \<^verbatim>\<open><=\<close>; the library does not use it, the theorems about the
  table search do.
\<close>

definition dle :: "double \<Rightarrow> double \<Rightarrow> bool" where
  "dle a b = (a \<noteq> NaN \<and> b \<noteq> NaN \<and> \<not> dlt b a)"

section \<open>Data model of libsddc\<close>

text \<open>
  The enumerations of \<^verbatim>\<open>libsddc.h\<close>. The hardware model is kept as the byte that
  \<^verbatim>\<open>sddc_open\<close> casts to \<^verbatim>\<open>enum SDDCHWModel\<close>: the identification reply may carry
  any value, also one outside the enumeration.
\<close>

datatype SDDCStatus =
  SDDC_STATUS_OFF | SDDC_STATUS_READY | SDDC_STATUS_STREAMING | SDDC_STATUS_FAILED

datatype RFMode = NO_RF_MODE | HF_MODE | VHF_MODE

definition HW_NORADIO :: "8 word" where "HW_NORADIO = 0"
definition HW_BBRF103 :: "8 word" where "HW_BBRF103 = 1"
definition HW_HF103 :: "8 word" where "HW_HF103 = 2"
definition HW_RX888 :: "8 word" where "HW_RX888 = 3"
definition HW_RX888R2 :: "8 word" where "HW_RX888R2 = 4"
definition HW_RX999 :: "8 word" where "HW_RX999 = 5"

text \<open>
  \<^verbatim>\<open>struct sddc\<close>. An \<^verbatim>\<open>int\<close> is modelled as an integer, a pointer as an optional
  identifier (\<open>None\<close> is the null pointer).
\<close>

record sddc =
  status :: SDDCStatus
  model :: "8 word"
  firmware :: "16 word"
  rf_mode :: RFMode
  usb_device :: nat
  streaming :: "nat option"
  has_clock_source :: int
  has_vhf_tuner :: int
  hf_attenuator_levels :: int
  hf_vga_levels :: int
  hf_attenuation :: double
  hf_vga_gain :: int
  sample_rate :: double
  tuner_frequency :: double
  tuner_attenuation :: double
  tuner_clock :: double
  freq_corr_ppm :: double
  frequency_range :: "double \<times> double"

definition DEFAULT_SAMPLE_RATE :: double where "DEFAULT_SAMPLE_RATE = Finite 64000000"
definition DEFAULT_TUNER_FREQUENCY :: double where "DEFAULT_TUNER_FREQUENCY = Finite 999000"
definition DEFAULT_FREQ_CORR_PPM :: double where "DEFAULT_FREQ_CORR_PPM = Finite 0"
definition DEFAULT_HF_ATTENUATION :: double where "DEFAULT_HF_ATTENUATION = Finite 0"
definition DEFAULT_TUNER_ATTENUATION :: double where "DEFAULT_TUNER_ATTENUATION = Finite 0"

definition GPIO_ATT_SEL0 :: "16 word" where "GPIO_ATT_SEL0 = 0x2000"
definition GPIO_ATT_SEL1 :: "16 word" where "GPIO_ATT_SEL1 = 0x4000"

definition FW_REG_R82XX_ATTENUATOR :: "8 word" where "FW_REG_R82XX_ATTENUATOR = 0x01"
definition FW_REG_DAT31_ATT :: "8 word" where "FW_REG_DAT31_ATT = 0x0a"
definition FW_REG_AD8370_VGA :: "8 word" where "FW_REG_AD8370_VGA = 0x0b"

text \<open>
  The AD8370 constants used by \<^verbatim>\<open>sddc_set_hf_vga_gain\<close>. \<^verbatim>\<open>libsddc.h\<close> defines the
  three VGA macros as \<^verbatim>\<open>AD4370_HIGH_MODE 0x80\<close>, \<^verbatim>\<open>AD8340_LOW_MODE 0x00\<close> and
  \<^verbatim>\<open>AD8340_GAIN_SWEET_POINT 18\<close>; the values are taken from there, under the names
  the function uses.
\<close>

definition AD8370_HIGH_MODE :: int where "AD8370_HIGH_MODE = 0x80"
definition AD8370_LOW_MODE :: int where "AD8370_LOW_MODE = 0x00"
definition AD8370_GAIN_SWEET_POINT :: int where "AD8370_GAIN_SWEET_POINT = 18"

section \<open>The transport and streaming collaborators\<close>

text \<open>
  The USB transport and the streaming engine are outside the library. Every call the
  library makes to them is recorded, with its return code, in the order it is made; the
  return code of a call is given by the environment from the calls made before it.
\<close>

datatype FX3Command =
  TESTFX3 | STARTADC | R82XXINIT | R82XXTUNE | R82XXSTDBY | STARTFX3 | STOPFX3

datatype payload = NoData | Data32 "32 word" | Data64 "64 word"

datatype hw_call =
    USB_DEVICE_CONTROL FX3Command payload
  | USB_DEVICE_CLOSE
  | USB_DEVICE_GPIO_ON "16 word"
  | USB_DEVICE_GPIO_SET "16 word" "16 word"
  | USB_DEVICE_SET_FW_REGISTER "8 word" "16 word"
  | STREAMING_SET_SAMPLE_RATE "32 word"
  | STREAMING_START
  | STREAMING_STOP
  | STREAMING_CLOSE

text \<open>A line written to the standard error stream: the format string and its argument.\<close>

datatype diag = Diag string | DiagDouble string double | DiagInt string int

record world =
  calls :: "(hw_call \<times> int) list"
  stderr :: "diag list"

text \<open>
  \<open>device_open\<close> is the result of \<^verbatim>\<open>usb_device_open\<close> for a device index, \<open>testfx3\<close>
  the four bytes the device answers to the identification command, \<open>ret\<close> the return
  code of a call. \<open>undefined_conversion\<close> belongs to the platform rather than to the
  transport: it is the integer that a conversion of a double to an integer type yields
  where C leaves the conversion undefined.
\<close>

record transport =
  device_open :: "int \<Rightarrow> nat option"
  testfx3 :: "8 word \<times> 8 word \<times> 8 word \<times> 8 word"
  ret :: "(hw_call \<times> int) list \<Rightarrow> hw_call \<Rightarrow> int"
  undefined_conversion :: "double \<Rightarrow> int"

definition call :: "transport \<Rightarrow> hw_call \<Rightarrow> world \<Rightarrow> int \<times> world" where
  "call tr c w = (let r = ret tr (calls w) c in (r, w\<lparr>calls := calls w @ [(c, r)]\<rparr>))"

text \<open>A call of a function that returns nothing is recorded with return code 0.\<close>

definition call_void :: "hw_call \<Rightarrow> world \<Rightarrow> world" where
  "call_void c w = w\<lparr>calls := calls w @ [(c, 0)]\<rparr>"

definition fprintf :: "diag \<Rightarrow> world \<Rightarrow> world" where
  "fprintf d w = w\<lparr>stderr := stderr w @ [d]\<rparr>"

text \<open>
  The conversion of a \<^verbatim>\<open>double\<close> to an integer type truncates toward zero. C defines
  it when the truncated value lies in the range \<open>lo .. hi\<close> of the target type; for
  every other finite value, an infinity or a NaN the result is the platform's. An
  \<^verbatim>\<open>int\<close> has 32 bits.
\<close>

definition trunc :: "real \<Rightarrow> int" where
  "trunc x = (if 0 \<le> x then \<lfloor>x\<rfloor> else \<lceil>x\<rceil>)"

definition convert :: "transport \<Rightarrow> int \<Rightarrow> int \<Rightarrow> double \<Rightarrow> int" where
  "convert tr lo hi d =
     (case d of
        Finite x \<Rightarrow> if lo \<le> trunc x \<and> trunc x \<le> hi then trunc x
                    else undefined_conversion tr d
      | _ \<Rightarrow> undefined_conversion tr d)"

definition to_int :: "transport \<Rightarrow> double \<Rightarrow> int" where
  "to_int tr d = convert tr (- (2 ^ 31)) (2 ^ 31 - 1) d"

definition to_uint16 :: "transport \<Rightarrow> double \<Rightarrow> 16 word" where
  "to_uint16 tr d = word_of_int (convert tr 0 (2 ^ 16 - 1) d)"

definition to_uint32 :: "transport \<Rightarrow> double \<Rightarrow> 32 word" where
  "to_uint32 tr d = word_of_int (convert tr 0 (2 ^ 32 - 1) d)"

definition to_uint64 :: "transport \<Rightarrow> double \<Rightarrow> 64 word" where
  "to_uint64 tr d = word_of_int (convert tr 0 (2 ^ 64 - 1) d)"


definition rf_mode_code :: "RFMode \<Rightarrow> int" where
  "rf_mode_code m = (case m of NO_RF_MODE \<Rightarrow> 0 | HF_MODE \<Rightarrow> 1 | VHF_MODE \<Rightarrow> 2)"

section \<open>Opening a device\<close>

definition sddc_open :: "transport \<Rightarrow> world \<Rightarrow> int \<Rightarrow> sddc option \<times> world" where
  "sddc_open tr w index =
     (case device_open tr index of
        None \<Rightarrow> (None, fprintf (Diag ''ERROR - usb_device_open() failed'') w)
      | Some dev \<Rightarrow>
          (case testfx3 tr of (d0, d1, d2, d3) \<Rightarrow>
             (case call tr (USB_DEVICE_CONTROL TESTFX3 NoData) w of (r, w1) \<Rightarrow>
                if r < 0 then
                  (None, call_void USB_DEVICE_CLOSE
                     (fprintf (Diag ''ERROR - usb_device_control(TESTFX3) failed'') w1))
                else
                  let m = d0;
                      (cs, vt, al, vl, fr) =
                        (if m = HW_BBRF103 \<or> m = HW_RX888 then
                           (1, 1, 3, 0, (Finite 10000, Finite 1750000000))
                         else if m = HW_RX888R2 then
                           (1, 1, 64, 127, (Finite 10000, Finite 1750000000))
                         else if m = HW_HF103 then
                           (0, 0, 32, 0, (Finite 0, Finite 32000000))
                         else (0, 0, 0, 0, (Finite 0, Finite 0)))
                  in (Some \<lparr>status = SDDC_STATUS_READY,
                            model = m,
                            firmware = word_of_int (push_bit 8 (uint d1) OR uint d2),
                            rf_mode = HF_MODE,
                            usb_device = dev,
                            streaming = None,
                            has_clock_source = cs,
                            has_vhf_tuner = vt,
                            hf_attenuator_levels = al,
                            hf_vga_levels = vl,
                            hf_attenuation = DEFAULT_HF_ATTENUATION,
                            hf_vga_gain = 0x25,
                            sample_rate = DEFAULT_SAMPLE_RATE,
                            tuner_frequency = DEFAULT_TUNER_FREQUENCY,
                            tuner_attenuation = DEFAULT_TUNER_ATTENUATION,
                            tuner_clock = Finite 0,
                            freq_corr_ppm = DEFAULT_FREQ_CORR_PPM,
                            frequency_range = fr\<rparr>, w1))))"

definition sddc_get_status :: "sddc \<Rightarrow> SDDCStatus" where
  "sddc_get_status this = status this"

definition sddc_get_rf_mode :: "sddc \<Rightarrow> RFMode" where
  "sddc_get_rf_mode this = rf_mode this"

section \<open>HF block\<close>

definition sddc_get_hf_attenuation :: "sddc \<Rightarrow> double" where
  "sddc_get_hf_attenuation this = hf_attenuation this"

text \<open>
  The \<^verbatim>\<open>switch ((int) attenuation)\<close> of the 3-level attenuator: the select pattern of
  a case label, \<open>None\<close> for the \<^verbatim>\<open>default\<close> branch.
\<close>

definition att3_bit_pattern :: "int \<Rightarrow> 16 word option" where
  "att3_bit_pattern n =
     (if n = 0 then Some GPIO_ATT_SEL1
      else if n = 10 then Some (GPIO_ATT_SEL0 OR GPIO_ATT_SEL1)
      else if n = 20 then Some GPIO_ATT_SEL0
      else None)"

definition sddc_set_hf_attenuation ::
  "transport \<Rightarrow> sddc \<Rightarrow> world \<Rightarrow> double \<Rightarrow> int \<times> sddc \<times> world" where
  "sddc_set_hf_attenuation tr this w attenuation =
     (if hf_attenuator_levels this = 0 then (0, this, w)
      else if hf_attenuator_levels this = 3 then
        (case att3_bit_pattern (to_int tr attenuation) of
           None \<Rightarrow>
             (- 1, this, fprintf (DiagDouble ''ERROR - invalid HF attenuation: %lf'' attenuation) w)
         | Some bit_pattern \<Rightarrow>
             (case call tr (USB_DEVICE_GPIO_SET bit_pattern (GPIO_ATT_SEL0 OR GPIO_ATT_SEL1)) w
              of (r, w1) \<Rightarrow> (r, this\<lparr>hf_attenuation := attenuation\<rparr>, w1)))
      else if hf_attenuator_levels this = 32 then
        (if dlt attenuation (Finite 0) \<or>
            dgt attenuation (double_of_int (hf_attenuator_levels this - 1)) then
           (- 1, this, fprintf (DiagDouble ''ERROR - invalid HF attenuation: %lf'' attenuation) w)
         else
           (case call tr (USB_DEVICE_SET_FW_REGISTER FW_REG_DAT31_ATT
                            (word_of_int (to_int tr attenuation))) w
            of (r, w1) \<Rightarrow> (r, this\<lparr>hf_attenuation := attenuation\<rparr>, w1)))
      else if hf_attenuator_levels this = 64 then
        (if dlt attenuation (Finite 0) \<or> dgt attenuation (Finite 31.5) then
           (- 1, this, fprintf (DiagDouble ''ERROR - invalid HF attenuation: %lf'' attenuation) w)
         else
           (case call tr (USB_DEVICE_SET_FW_REGISTER FW_REG_DAT31_ATT
                            (to_uint16 tr (dmul attenuation (Finite 2)))) w
            of (r, w1) \<Rightarrow> (r, this\<lparr>hf_attenuation := attenuation\<rparr>, w1)))
      else
        (- 1, this,
         fprintf (DiagInt ''ERROR - invalid number of HF attenuator levels: %d''
                    (hf_attenuator_levels this)) w))"

definition sddc_set_hf_vga_gain ::
  "transport \<Rightarrow> sddc \<Rightarrow> world \<Rightarrow> int \<Rightarrow> int \<times> sddc \<times> world" where
  "sddc_set_hf_vga_gain tr this w idx =
     (if hf_vga_levels this = 0 then (0, this, w)
      else if hf_vga_levels this = 127 then
        (if idx < 0 \<or> idx > 127 then
           (- 1, this, fprintf (DiagInt ''ERROR - invalid HF vga gain idx: %d'' idx) w)
         else
           let gain_code :: 8 word =
                 (if idx > AD8370_GAIN_SWEET_POINT then
                    word_of_int (AD8370_HIGH_MODE OR (idx - AD8370_GAIN_SWEET_POINT + 3))
                  else word_of_int (AD8370_LOW_MODE OR (idx + 1)))
           in (case call tr (USB_DEVICE_SET_FW_REGISTER FW_REG_AD8370_VGA (ucast gain_code)) w
               of (r, w1) \<Rightarrow> (r, this\<lparr>hf_vga_gain := idx\<rparr>, w1)))
      else
        (- 1, this,
         fprintf (DiagInt ''ERROR - invalid number of HF vga levels: %d'' (hf_vga_levels this)) w))"

section \<open>RF mode\<close>

definition sddc_set_vhf_gpios :: "transport \<Rightarrow> sddc \<Rightarrow> world \<Rightarrow> int \<times> world" where
  "sddc_set_vhf_gpios tr this w =
     call tr (USB_DEVICE_GPIO_SET 0 (GPIO_ATT_SEL0 OR GPIO_ATT_SEL1)) w"

definition sddc_set_rf_mode ::
  "transport \<Rightarrow> sddc \<Rightarrow> world \<Rightarrow> RFMode \<Rightarrow> int \<times> sddc \<times> world" where
  "sddc_set_rf_mode tr this w rf_mode' =
     (case rf_mode' of
        HF_MODE \<Rightarrow>
          let this1 = this\<lparr>rf_mode := HF_MODE\<rparr> in
          (case call tr (USB_DEVICE_CONTROL R82XXSTDBY NoData) w of (r, w1) \<Rightarrow>
             if r < 0 then
               (- 1, this1, fprintf (Diag ''ERROR - usb_device_control(R82XXSTDBY) failed'') w1)
             else
               (case sddc_set_hf_attenuation tr this1 w1 (hf_attenuation this1)
                of (r2, this2, w2) \<Rightarrow>
                  if r2 < 0 then
                    (- 1, this2, fprintf (Diag ''ERROR - sddc_set_hf_attenuation() failed'') w2)
                  else if hf_vga_levels this2 > 0 then
                    (case sddc_set_hf_vga_gain tr this2 w2 (hf_vga_gain this2)
                     of (r3, this3, w3) \<Rightarrow>
                       if r3 < 0 then
                         (- 1, this3,
                          fprintf (Diag ''ERROR - sddc_set_hf_vga_gain() failed'') w3)
                       else (0, this3, w3))
                  else (0, this2, w2)))
      | VHF_MODE \<Rightarrow>
          if has_vhf_tuner this = 0 then
            (- 1, this, fprintf (Diag ''WARNING - no VHF/UHF tuner found'') w)
          else
            let this1 = this\<lparr>rf_mode := VHF_MODE\<rparr> in
            (case sddc_set_vhf_gpios tr this1 w of (r, w1) \<Rightarrow>
               if r < 0 then
                 (- 1, this1, fprintf (Diag ''ERROR - sddc_set_vhf_gpios() failed'') w1)
               else
                 let correction = dmul (dmul (dbl (1 / 1000000)) (freq_corr_ppm this1))
                                    (tuner_clock this1);
                     data = to_uint32 tr (dadd (tuner_clock this1) correction)
                 in (case call tr (USB_DEVICE_CONTROL R82XXINIT (Data32 data)) w1 of (r2, w2) \<Rightarrow>
                       if r2 < 0 then
                         (- 1, this1,
                          fprintf (Diag ''ERROR - usb_device_control(R82XXINIT) failed'') w2)
                       else (0, this1, w2)))
      | NO_RF_MODE \<Rightarrow>
          (- 1, this,
           fprintf (DiagInt ''WARNING - invalid RF mode: %d'' (rf_mode_code rf_mode')) w))"

section \<open>Tuner\<close>

definition sddc_get_tuner_frequency :: "sddc \<Rightarrow> double" where
  "sddc_get_tuner_frequency this = tuner_frequency this"


definition tuner_rf_attenuations_table :: "double list" where
  "tuner_rf_attenuations_table = map dbl
     [0.0, 0.9, 1.4, 2.7, 3.7, 7.7, 8.7, 12.5, 14.4, 15.7, 16.6, 19.7, 20.7,
      22.9, 25.4, 28.0, 29.7, 32.8, 33.8, 36.4, 37.2, 38.6, 40.2, 42.1, 43.4,
      43.9, 44.5, 48.0, 49.6]"


text \<open>
  The search loop of the two tuner attenuation setters, over the table entries from
  index \<open>i\<close> on: \<open>idx\<close> is the best index so far and \<open>idx_att\<close> its distance.
\<close>

fun scan :: "double \<Rightarrow> double list \<Rightarrow> nat \<Rightarrow> nat \<Rightarrow> double \<Rightarrow> nat" where
  "scan attenuation [] i idx idx_att = idx"
| "scan attenuation (t # ts) i idx idx_att =
     (let att = fabs (dsub attenuation t) in
      if dlt att idx_att then scan attenuation ts (Suc i) i att
      else scan attenuation ts (Suc i) idx idx_att)"

definition nearest_index :: "double list \<Rightarrow> double \<Rightarrow> nat" where
  "nearest_index tbl attenuation =
     scan attenuation (tl tbl) 1 0 (fabs (dsub attenuation (hd tbl)))"

definition sddc_set_tuner_rf_attenuation ::
  "transport \<Rightarrow> sddc \<Rightarrow> world \<Rightarrow> double \<Rightarrow> int \<times> sddc \<times> world" where
  "sddc_set_tuner_rf_attenuation tr this w attenuation =
     (let idx = nearest_index tuner_rf_attenuations_table attenuation in
      case call tr (USB_DEVICE_SET_FW_REGISTER FW_REG_R82XX_ATTENUATOR (of_nat idx)) w
      of (r, w1) \<Rightarrow>
        if r < 0 then
          (- 1, this,
           fprintf (Diag
             ''ERROR - usb_device_set_fw_register(FW_REG_R82XX_ATTENUATOR) failed'') w1)
        else
          (0, this,
           fprintf (DiagDouble ''INFO - RF tuner attenuation set to %.1f''
                      (tuner_rf_attenuations_table ! idx)) w1))"


section \<open>Streaming\<close>




section \<open>Frequency correction\<close>

definition sddc_get_frequency_correction :: "sddc \<Rightarrow> double" where
  "sddc_get_frequency_correction this = freq_corr_ppm this"

definition sddc_set_frequency_correction :: "sddc \<Rightarrow> world \<Rightarrow> double \<Rightarrow> int \<times> sddc \<times> world" where
  "sddc_set_frequency_correction this w correction =
     (if status this = SDDC_STATUS_STREAMING then
        (- 1, this,
         fprintf (Diag ''ERROR - sddc_set_frequency_correction() failed - device is streaming'') w)
      else (0, this\<lparr>freq_corr_ppm := correction\<rparr>, w))"

section \<open>Example environments and handles\<close>

text \<open>
  Concrete inputs on which the theorems below are exercised: an empty world, a transport
  whose every call succeeds and one whose every call fails (both answer the
  identification command with model byte \<open>m\<close> and firmware bytes 1, 2, and yield
  \<open>-2\<^sup>3\<^sup>1\<close> where C leaves a conversion undefined), and the handle
  that \<open>sddc_open\<close> returns for model byte \<open>m\<close>.
\<close>

definition world0 :: world where
  "world0 = \<lparr>calls = [], stderr = []\<rparr>"

definition ok_transport :: "8 word \<Rightarrow> transport" where
  "ok_transport m =
     \<lparr>device_open = (\<lambda>i. Some 0), testfx3 = (m, 1, 2, 0), ret = (\<lambda>h c. 0),
      undefined_conversion = (\<lambda>d. - 2147483648)\<rparr>"

definition bad_transport :: "8 word \<Rightarrow> transport" where
  "bad_transport m =
     \<lparr>device_open = (\<lambda>i. Some 0), testfx3 = (m, 1, 2, 0), ret = (\<lambda>h c. - 1),
      undefined_conversion = (\<lambda>d. - 2147483648)\<rparr>"

definition opened :: "8 word \<Rightarrow> sddc" where
  "opened m = the (fst (sddc_open (ok_transport m) world0 0))"

section \<open>Properties of the double model\<close>

subsection \<open>Powers of two and the binary exponent\<close>

lemma pow2_pos: "0 < pow2 e"
  by (simp add: pow2_def)

lemma pow2_Suc: "pow2 (e + 1) = 2 * pow2 e"
  by (simp add: pow2_def power_int_add)

lemma pow2_mono: "a \<le> b \<Longrightarrow> pow2 a \<le> pow2 b"
  by (simp add: pow2_def power_int_increasing)

lemma pow2_nat: "0 \<le> k \<Longrightarrow> pow2 k = 2 ^ nat k"
  by (simp add: pow2_def power_int_def)

lemma pow2_minus: "pow2 (- k) = 1 / pow2 k"
  by (simp add: pow2_def power_int_minus field_simps)

lemma ilog2_bounds_ge1:
  assumes "1 \<le> x"
  shows "0 \<le> bitlen \<lfloor>x\<rfloor> - 1" and "pow2 (bitlen \<lfloor>x\<rfloor> - 1) \<le> x"
    and "x < pow2 (bitlen \<lfloor>x\<rfloor> - 1 + 1)"
proof -
  define n where "n = \<lfloor>x\<rfloor>"
  have n: "0 < n"
    using assms by (simp add: n_def)
  have b: "2 ^ nat (bitlen n - 1) \<le> n" "n < 2 ^ nat (bitlen n)"
    using bitlen_bounds [OF n] by simp_all
  have b1: "1 \<le> bitlen n"
    using n by (simp add: bitlen_alt_def)
  show "0 \<le> bitlen \<lfloor>x\<rfloor> - 1"
    using b1 by (simp add: n_def)
  have "pow2 (bitlen n - 1) = of_int (2 ^ nat (bitlen n - 1))"
    using b1 by (simp add: pow2_nat)
  also have "\<dots> \<le> of_int n"
    using b(1) by (simp only: of_int_le_iff)
  also have "\<dots> \<le> x"
    by (simp add: n_def)
  finally show "pow2 (bitlen \<lfloor>x\<rfloor> - 1) \<le> x"
    by (simp add: n_def)
  have "n + 1 \<le> 2 ^ nat (bitlen n)"
    using b(2) by simp
  then have "of_int (n + 1) \<le> (of_int (2 ^ nat (bitlen n)) :: real)"
    by (simp only: of_int_le_iff)
  then have c: "of_int n + 1 \<le> (2 ^ nat (bitlen n) :: real)"
    by simp
  have d: "x < of_int n + 1"
    unfolding n_def by linarith
  have "pow2 (bitlen n - 1 + 1) = 2 ^ nat (bitlen n)"
    using b1 by (simp add: pow2_nat)
  then have "x < pow2 (bitlen n - 1 + 1)"
    using c d by linarith
  then show "x < pow2 (bitlen \<lfloor>x\<rfloor> - 1 + 1)"
    by (simp only: n_def)
qed

lemma ilog2_bounds:
  assumes "0 < x"
  shows "pow2 (ilog2 x) \<le> x \<and> x < pow2 (ilog2 x + 1)"
proof (cases "1 \<le> x")
  case True
  then show ?thesis
    using ilog2_bounds_ge1 [OF True] by (simp add: ilog2_def)
next
  case False
  define y where "y = 1 / x"
  define n where "n = bitlen \<lfloor>y\<rfloor> - 1"
  have y: "1 \<le> y" "0 < y" and xy: "x = 1 / y"
    using False assms by (simp_all add: y_def)
  have lo: "pow2 n \<le> y" and hi: "y < pow2 (n + 1)"
    using ilog2_bounds_ge1 [OF y(1)] by (simp_all add: n_def)
  have il: "ilog2 x = (if y = pow2 n then - n else - n - 1)"
    using False by (simp add: ilog2_def y_def n_def Let_def)
  show ?thesis
  proof (cases "y = pow2 n")
    case True
    have "x = pow2 (- n)"
      using True xy by (simp add: pow2_minus)
    moreover have "pow2 (- n) < pow2 (- n + 1)"
      using pow2_pos [of "- n"] pow2_Suc [of "- n"] by linarith
    ultimately show ?thesis
      using il True by simp
  next
    case False
    then have lt: "pow2 n < y"
      using lo by simp
    have "pow2 (- n - 1) = 1 / pow2 (n + 1)"
      using pow2_minus [of "n + 1"] by simp
    also have "\<dots> < 1 / y"
      using hi y(2) by (simp add: frac_less2)
    finally have a: "pow2 (- n - 1) < x"
      using xy by simp
    have "1 / y < 1 / pow2 n"
      using lt pow2_pos [of n] by (simp add: frac_less2)
    then have b: "x < pow2 (- n - 1 + 1)"
      using xy by (simp add: pow2_minus)
    show ?thesis
      using il False a b by simp
  qed
qed

lemma ilog2_unique:
  assumes "0 < x" and "pow2 k \<le> x" and "x < pow2 (k + 1)"
  shows "ilog2 x = k"
proof (rule ccontr)
  assume ne: "ilog2 x \<noteq> k"
  note b = ilog2_bounds [OF assms(1)]
  show False
  proof (cases "ilog2 x < k")
    case True
    then have "pow2 (ilog2 x + 1) \<le> pow2 k"
      by (intro pow2_mono) simp
    then show False
      using b assms(2) by simp
  next
    case False
    then have "pow2 (k + 1) \<le> pow2 (ilog2 x)"
      using ne by (intro pow2_mono) simp
    then show False
      using b assms(3) by simp
  qed
qed

lemma round_even_of_int: "round_even (of_int n) = n"
  by (simp add: round_even_def)

subsection \<open>Doubling a double is exact\<close>

lemma round_double_twice:
  assumes r: "round_double a = Finite a" and pos: "0 < a" and mx: "2 * a \<le> DBL_MAX"
  shows "round_double (2 * a) = Finite (2 * a)"
proof -
  define k where "k = ilog2 a"
  define e where "e = max (k - 52) (- 1074)"
  define m where "m = round_even (a / pow2 e)"
  have am: "of_int m * pow2 e = a"
    using r pos by (simp add: round_double_def Let_def k_def e_def m_def split: if_splits)
  note b = ilog2_bounds [OF pos, folded k_def]
  have k2: "ilog2 (2 * a) = k + 1"
  proof (rule ilog2_unique)
    show "0 < 2 * a" using pos by simp
    show "pow2 (k + 1) \<le> 2 * a"
      using b pow2_Suc [of k] by linarith
    show "2 * a < pow2 (k + 1 + 1)"
      using b pow2_Suc [of "k + 1"] by linarith
  qed
  define e' where "e' = max (k + 1 - 52) (- 1074)"
  have "\<exists>n. 2 * a / pow2 e' = of_int n"
  proof (cases "e' = e")
    case True
    have "2 * a / pow2 e' = of_int (2 * m)"
      using am pow2_pos [of e] by (simp add: True field_simps)
    then show ?thesis ..
  next
    case False
    then have "e' = e + 1"
      by (simp add: e'_def e_def max_def split: if_splits)
    then have "pow2 e' = 2 * pow2 e"
      by (simp only: pow2_Suc)
    then have "2 * a / pow2 e' = of_int m"
      using am pow2_pos [of e] by (simp add: field_simps)
    then show ?thesis ..
  qed
  then obtain n where n: "2 * a / pow2 e' = of_int n" ..
  have "of_int (round_even (2 * a / pow2 e')) * pow2 e' = 2 * a"
    using n pow2_pos [of e'] by (simp add: round_even_of_int field_simps)
  then show ?thesis
    using pos mx k2 by (simp add: round_double_def Let_def e'_def)
qed

subsection \<open>The order of the doubles\<close>

lemma round_double_not_NaN: "round_double x \<noteq> NaN"
  by (simp add: round_double_def Let_def)

lemma fabs_NaN_iff: "fabs d = NaN \<longleftrightarrow> d = NaN"
  by (cases d) simp_all

lemma distance_not_NaN: "a \<noteq> NaN \<Longrightarrow> fabs (dsub a (Finite t)) \<noteq> NaN"
  by (cases a) (simp_all add: fabs_NaN_iff round_double_not_NaN)

lemma dlt_irrefl: "\<not> dlt a a"
  by (cases a) simp_all

lemma dlt_not_NaN: "dlt a b \<Longrightarrow> a \<noteq> NaN \<and> b \<noteq> NaN"
  by (cases a; cases b) simp_all

lemma dlt_trans: "dlt a b \<Longrightarrow> dlt b c \<Longrightarrow> dlt a c"
  by (cases a; cases b; cases c) simp_all

lemma dlt_dle_trans: "dlt a b \<Longrightarrow> dle b c \<Longrightarrow> dlt a c"
  by (cases a; cases b; cases c) (simp_all add: dle_def)

lemma dlt_dle_dle: "dlt a b \<Longrightarrow> dle b c \<Longrightarrow> dle a c"
  by (cases a; cases b; cases c) (simp_all add: dle_def)

lemma dle_refl: "a \<noteq> NaN \<Longrightarrow> dle a a"
  by (simp add: dle_def dlt_irrefl)

subsection \<open>Evaluation of roundings and of the tables\<close>

lemmas double_eval =
  round_double_def ilog2_def round_even_def pow2_def DBL_MAX_def dbl_def Let_def
  compute_bitlen

lemma rf_table_values:
  "tuner_rf_attenuations_table =
[Finite 0, Finite (8106479329266893 / 9007199254740992),
      Finite (3152519739159347 / 2251799813685248),
      Finite (3039929748475085 / 1125899906842624),
      Finite (4165829655317709 / 1125899906842624),
      Finite (8669429282688205 / 1125899906842624),
      Finite (2448832297382707 / 281474976710656), Finite (25 / 2),
      Finite (8106479329266893 / 562949953421312),
      Finite (4419157134357299 / 281474976710656),
      Finite (2336242306698445 / 140737488355328),
      Finite (5545057041199923 / 281474976710656),
      Finite (5826532017910579 / 281474976710656),
      Finite (3222888483337011 / 140737488355328),
      Finite (3574732204225331 / 140737488355328), Finite 28,
      Finite (8359806808306483 / 281474976710656),
      Finite (2308094809027379 / 70368744177664),
      Finite (2378463553205043 / 70368744177664),
      Finite (5122844576133939 / 140737488355328),
      Finite (2617717283409101 / 70368744177664),
      Finite (5432467050515661 / 140737488355328),
      Finite (2828823515942093 / 70368744177664),
      Finite (5925048259759309 / 140737488355328),
      Finite (6108006994621235 / 140737488355328),
      Finite (6178375738798899 / 140737488355328), Finite (89 / 2), Finite 48,
      Finite (6980579422424269 / 140737488355328)]"
  by (simp add: tuner_rf_attenuations_table_def double_eval)


lemma rf_nearest_5: "nearest_index tuner_rf_attenuations_table (Finite 5) = 4"
  by (simp add: nearest_index_def rf_table_values double_eval)

lemma rf_nearest_31_25: "nearest_index tuner_rf_attenuations_table (Finite 31.25) = 17"
  by (simp add: nearest_index_def rf_table_values double_eval)

lemma rf_nearest_1e18:
  "nearest_index tuner_rf_attenuations_table (Finite 1000000000000000000) = 0"
  by (simp add: nearest_index_def rf_table_values double_eval)

lemma double_of_int_31: "double_of_int 31 = Finite 31"
  by (simp add: double_of_int_def double_eval)

lemma literal_doubles:
  "is_double (Finite 64000000)" "is_double (Finite 999000)" "is_double (Finite 32000000)"
  "is_double (Finite 10000)" "is_double (Finite 1750000000)" "is_double (Finite 31.5)"
  "is_double (Finite 2)" "is_double (Finite 0)"
  by (simp_all add: is_double_def double_eval)

section \<open>Evaluation of the examples\<close>

lemmas hw_defs =
  HW_NORADIO_def HW_BBRF103_def HW_HF103_def HW_RX888_def HW_RX888R2_def HW_RX999_def

lemmas env_defs =
  world0_def ok_transport_def bad_transport_def call_def call_void_def fprintf_def

lemmas conv_defs =
  to_int_def to_uint16_def to_uint32_def to_uint64_def convert_def trunc_def

lemmas default_defs =
  DEFAULT_SAMPLE_RATE_def DEFAULT_TUNER_FREQUENCY_def DEFAULT_HF_ATTENUATION_def
  DEFAULT_TUNER_ATTENUATION_def DEFAULT_FREQ_CORR_PPM_def

lemma opened_RX888R2:
  "opened HW_RX888R2 =
     \<lparr>status = SDDC_STATUS_READY, model = 4, firmware = 258, rf_mode = HF_MODE,
      usb_device = 0, streaming = None, has_clock_source = 1, has_vhf_tuner = 1,
      hf_attenuator_levels = 64, hf_vga_levels = 127, hf_attenuation = Finite 0,
      hf_vga_gain = 37, sample_rate = Finite 64000000, tuner_frequency = Finite 999000,
      tuner_attenuation = Finite 0, tuner_clock = Finite 0, freq_corr_ppm = Finite 0,
      frequency_range = (Finite 10000, Finite 1750000000)\<rparr>"
  by (simp add: opened_def sddc_open_def env_defs hw_defs default_defs)

lemma opened_RX888:
  "opened HW_RX888 =
     \<lparr>status = SDDC_STATUS_READY, model = 3, firmware = 258, rf_mode = HF_MODE,
      usb_device = 0, streaming = None, has_clock_source = 1, has_vhf_tuner = 1,
      hf_attenuator_levels = 3, hf_vga_levels = 0, hf_attenuation = Finite 0,
      hf_vga_gain = 37, sample_rate = Finite 64000000, tuner_frequency = Finite 999000,
      tuner_attenuation = Finite 0, tuner_clock = Finite 0, freq_corr_ppm = Finite 0,
      frequency_range = (Finite 10000, Finite 1750000000)\<rparr>"
  by (simp add: opened_def sddc_open_def env_defs hw_defs default_defs)

lemma opened_HF103:
  "opened HW_HF103 =
     \<lparr>status = SDDC_STATUS_READY, model = 2, firmware = 258, rf_mode = HF_MODE,
      usb_device = 0, streaming = None, has_clock_source = 0, has_vhf_tuner = 0,
      hf_attenuator_levels = 32, hf_vga_levels = 0, hf_attenuation = Finite 0,
      hf_vga_gain = 37, sample_rate = Finite 64000000, tuner_frequency = Finite 999000,
      tuner_attenuation = Finite 0, tuner_clock = Finite 0, freq_corr_ppm = Finite 0,
      frequency_range = (Finite 0, Finite 32000000)\<rparr>"
  by (simp add: opened_def sddc_open_def env_defs hw_defs default_defs)

lemma opened_NORADIO:
  "opened HW_NORADIO =
     \<lparr>status = SDDC_STATUS_READY, model = 0, firmware = 258, rf_mode = HF_MODE,
      usb_device = 0, streaming = None, has_clock_source = 0, has_vhf_tuner = 0,
      hf_attenuator_levels = 0, hf_vga_levels = 0, hf_attenuation = Finite 0,
      hf_vga_gain = 37, sample_rate = Finite 64000000, tuner_frequency = Finite 999000,
      tuner_attenuation = Finite 0, tuner_clock = Finite 0, freq_corr_ppm = Finite 0,
      frequency_range = (Finite 0, Finite 0)\<rparr>"
  by (simp add: opened_def sddc_open_def env_defs hw_defs default_defs)

section \<open>Streaming lifecycle\<close>



section \<open>RF mode\<close>

text \<open>
  Claim C2. On a handle without a VHF tuner (\<open>has_vhf_tuner = 0\<close>),
  \<open>sddc_set_rf_mode\<close> to \<open>VHF_MODE\<close> returns \<open>-1\<close> with the warning that no tuner
  was found, leaves the whole handle (and so \<open>rf_mode\<close>) unchanged and makes no call to
  the hardware.
\<close>

theorem set_rf_mode_vhf_without_tuner:
  "has_vhf_tuner this = 0 \<Longrightarrow>
     (\<exists>w'. sddc_set_rf_mode tr this w VHF_MODE = (- 1, this, w') \<and>
           calls w' = calls w \<and>
           stderr w' = stderr w @ [Diag ''WARNING - no VHF/UHF tuner found''])"
  by (simp add: sddc_set_rf_mode_def fprintf_def)

theorem set_rf_mode_vhf_without_tuner_witness:
  "has_vhf_tuner (opened HW_HF103) = 0 \<and>
   (\<exists>w'. sddc_set_rf_mode (ok_transport HW_HF103) (opened HW_HF103) world0 VHF_MODE =
            (- 1, opened HW_HF103, w') \<and>
          calls w' = [] \<and> stderr w' = [Diag ''WARNING - no VHF/UHF tuner found''])"
proof -
  have h: "has_vhf_tuner (opened HW_HF103) = 0"
    by (simp add: opened_HF103)
  show ?thesis
    using h set_rf_mode_vhf_without_tuner [OF h, of "ok_transport HW_HF103" world0]
    by (simp add: world0_def)
qed

section \<open>HF attenuation\<close>

lemma trunc_zero_iff: "trunc a = 0 \<longleftrightarrow> - 1 < a \<and> a < 1"
  unfolding trunc_def by (auto simp: floor_eq_iff ceiling_eq_iff)

lemma trunc_pos_iff: "0 < n \<Longrightarrow> trunc a = n \<longleftrightarrow> of_int n \<le> a \<and> a < of_int n + 1"
  unfolding trunc_def by (auto simp: floor_eq_iff ceiling_eq_iff)

lemma to_int_Finite:
  assumes "- 2147483648 \<le> a" and "a < 2147483648"
  shows "to_int tr (Finite a) = trunc a"
proof -
  have "- 2147483648 \<le> trunc a"
    using assms(1) unfolding trunc_def by (auto simp: le_floor_iff le_ceiling_iff)
  moreover have "trunc a \<le> 2147483647"
  proof (cases "0 \<le> a")
    case True
    have "\<lfloor>a\<rfloor> < 2147483648"
      using assms(2) by (simp add: floor_less_iff)
    then show ?thesis
      using True by (simp add: trunc_def)
  next
    case False
    then have "\<lceil>a\<rceil> \<le> 0"
      by (simp add: ceiling_le_iff)
    then show ?thesis
      using False by (simp add: trunc_def)
  qed
  ultimately show ?thesis
    by (simp add: to_int_def convert_def)
qed

lemma set_hf_attenuation_3:
  assumes "hf_attenuator_levels this = 3"
  shows "sddc_set_hf_attenuation tr this w a =
     (case att3_bit_pattern (to_int tr a) of
        None \<Rightarrow> (- 1, this, fprintf (DiagDouble ''ERROR - invalid HF attenuation: %lf'' a) w)
      | Some p \<Rightarrow>
          (let c = USB_DEVICE_GPIO_SET p (GPIO_ATT_SEL0 OR GPIO_ATT_SEL1);
               r = ret tr (calls w) c
           in (r, this\<lparr>hf_attenuation := a\<rparr>, w\<lparr>calls := calls w @ [(c, r)]\<rparr>)))"
  using assms by (simp add: sddc_set_hf_attenuation_def call_def Let_def split: option.splits)

text \<open>
  Claim C3, as the code has it. On a handle with the 3-level attenuator,
  \<open>sddc_set_hf_attenuation\<close> accepts every value in \<open>[0, 1)\<close>, \<open>[10, 11)\<close> and
  \<open>[20, 21)\<close>, the values whose integer part is 0, 10 or 20: it stores the requested
  value as given and sets the select pattern of the integer part (\<open>0x4000\<close>,
  \<open>0x6000\<close>, \<open>0x2000\<close>, three distinct patterns within the 2-bit mask \<open>0x6000\<close>). Every
  value in \<open>[-2\<^sup>3\<^sup>1, -1]\<close>, \<open>[1, 10)\<close>, \<open>[11, 20)\<close> and \<open>[21, 2\<^sup>3\<^sup>1)\<close> is rejected with
  \<open>-1\<close> and the invalid-attenuation diagnostic, the handle unchanged and no call made.
  Nothing is stated about the values strictly between \<open>-1\<close> and 0.
\<close>

theorem set_hf_attenuation_3_level:
  "hf_attenuator_levels this = 3 \<Longrightarrow>
     ((0 \<le> a \<and> a < 1) \<or> (10 \<le> a \<and> a < 11) \<or> (20 \<le> a \<and> a < 21) \<longrightarrow>
        (\<exists>p. att3_bit_pattern (trunc a) = Some p \<and>
           sddc_set_hf_attenuation tr this w (Finite a) =
             (let c = USB_DEVICE_GPIO_SET p (GPIO_ATT_SEL0 OR GPIO_ATT_SEL1);
                  r = ret tr (calls w) c
              in (r, this\<lparr>hf_attenuation := Finite a\<rparr>,
                  w\<lparr>calls := calls w @ [(c, r)]\<rparr>)))) \<and>
     ((- 2147483648 \<le> a \<and> a \<le> - 1) \<or> (1 \<le> a \<and> a < 10) \<or> (11 \<le> a \<and> a < 20) \<or>
      (21 \<le> a \<and> a < 2147483648) \<longrightarrow>
        sddc_set_hf_attenuation tr this w (Finite a) =
          (- 1, this,
           fprintf (DiagDouble ''ERROR - invalid HF attenuation: %lf'' (Finite a)) w)) \<and>
     att3_bit_pattern 0 = Some 0x4000 \<and> att3_bit_pattern 10 = Some 0x6000 \<and>
     att3_bit_pattern 20 = Some 0x2000 \<and> GPIO_ATT_SEL0 OR GPIO_ATT_SEL1 = 0x6000"
proof (intro conjI impI)
  assume lv: "hf_attenuator_levels this = 3"
  {
    assume acc: "(0 \<le> a \<and> a < 1) \<or> (10 \<le> a \<and> a < 11) \<or> (20 \<le> a \<and> a < 21)"
    then have ti: "to_int tr (Finite a) = trunc a"
      by (intro to_int_Finite) auto
    have "trunc a = 0 \<or> trunc a = 10 \<or> trunc a = 20"
      using acc trunc_pos_iff [of 10 a] trunc_pos_iff [of 20 a]
      by (auto simp: trunc_zero_iff)
    then have "\<exists>p. att3_bit_pattern (trunc a) = Some p"
      by (auto simp: att3_bit_pattern_def)
    then show "\<exists>p. att3_bit_pattern (trunc a) = Some p \<and>
           sddc_set_hf_attenuation tr this w (Finite a) =
             (let c = USB_DEVICE_GPIO_SET p (GPIO_ATT_SEL0 OR GPIO_ATT_SEL1);
                  r = ret tr (calls w) c
              in (r, this\<lparr>hf_attenuation := Finite a\<rparr>,
                  w\<lparr>calls := calls w @ [(c, r)]\<rparr>))"
      by (auto simp: set_hf_attenuation_3 [OF lv] ti)
  }
  {
    assume rej: "(- 2147483648 \<le> a \<and> a \<le> - 1) \<or> (1 \<le> a \<and> a < 10) \<or>
      (11 \<le> a \<and> a < 20) \<or> (21 \<le> a \<and> a < 2147483648)"
    then have ti: "to_int tr (Finite a) = trunc a"
      by (intro to_int_Finite) auto
    have "trunc a \<noteq> 0 \<and> trunc a \<noteq> 10 \<and> trunc a \<noteq> 20"
      using rej trunc_pos_iff [of 10 a] trunc_pos_iff [of 20 a]
      by (auto simp: trunc_zero_iff)
    then have "att3_bit_pattern (trunc a) = None"
      by (simp add: att3_bit_pattern_def)
    then show "sddc_set_hf_attenuation tr this w (Finite a) =
          (- 1, this,
           fprintf (DiagDouble ''ERROR - invalid HF attenuation: %lf'' (Finite a)) w)"
      by (simp add: set_hf_attenuation_3 [OF lv] ti)
  }
  show "att3_bit_pattern 0 = Some 0x4000" "att3_bit_pattern 10 = Some 0x6000"
    "att3_bit_pattern 20 = Some 0x2000" "GPIO_ATT_SEL0 OR GPIO_ATT_SEL1 = 0x6000"
    by (simp_all add: att3_bit_pattern_def GPIO_ATT_SEL0_def GPIO_ATT_SEL1_def)
qed

theorem set_hf_attenuation_3_level_witness:
  "hf_attenuator_levels (opened HW_RX888) = 3 \<and>
   sddc_set_hf_attenuation (ok_transport HW_RX888) (opened HW_RX888) world0 (Finite 10) =
     (0, (opened HW_RX888)\<lparr>hf_attenuation := Finite 10\<rparr>,
      \<lparr>calls = [(USB_DEVICE_GPIO_SET 0x6000 0x6000, 0)], stderr = []\<rparr>) \<and>
   sddc_set_hf_attenuation (ok_transport HW_RX888) (opened HW_RX888) world0 (Finite 5) =
     (- 1, opened HW_RX888,
      \<lparr>calls = [],
       stderr = [DiagDouble ''ERROR - invalid HF attenuation: %lf'' (Finite 5)]\<rparr>) \<and>
   sddc_set_hf_attenuation (ok_transport HW_RX888) (opened HW_RX888) world0 (Finite (- 3)) =
     (- 1, opened HW_RX888,
      \<lparr>calls = [],
       stderr = [DiagDouble ''ERROR - invalid HF attenuation: %lf'' (Finite (- 3))]\<rparr>)"
proof -
  have h: "hf_attenuator_levels (opened HW_RX888) = 3"
    by (simp add: opened_RX888)
  have t: "trunc 10 = 10"
    by (simp add: trunc_def)
  show ?thesis
    using h set_hf_attenuation_3_level [OF h, of 10 "ok_transport HW_RX888" world0]
      set_hf_attenuation_3_level [OF h, of 5 "ok_transport HW_RX888" world0]
      set_hf_attenuation_3_level [OF h, of "- 3" "ok_transport HW_RX888" world0]
    by (simp add: t env_defs Let_def)
qed

text \<open>
  The claim as the specification states it fails: 0.5 dB is none of 0, 10 and 20, and
  the 3-level handle accepts it and stores it.
\<close>

theorem set_hf_attenuation_3_level_counterexample:
  "hf_attenuator_levels (opened HW_RX888) = 3 \<and>
   is_double (Finite 0.5) \<and>
   (0.5 :: real) \<notin> {0, 10, 20} \<and>
   hf_attenuation (opened HW_RX888) = Finite 0 \<and>
   sddc_set_hf_attenuation (ok_transport HW_RX888) (opened HW_RX888) world0 (Finite 0.5) =
     (0, (opened HW_RX888)\<lparr>hf_attenuation := Finite 0.5\<rparr>,
      \<lparr>calls = [(USB_DEVICE_GPIO_SET 0x4000 0x6000, 0)], stderr = []\<rparr>) \<and>
   hf_attenuation ((opened HW_RX888)\<lparr>hf_attenuation := Finite 0.5\<rparr>) = Finite 0.5"
  by (simp add: opened_RX888 sddc_set_hf_attenuation_def att3_bit_pattern_def conv_defs
      env_defs GPIO_ATT_SEL0_def GPIO_ATT_SEL1_def is_double_def double_eval)

lemma dmul_two_exact:
  assumes "is_double (Finite a)" and "0 \<le> a" and "a \<le> 31.5"
  shows "dmul (Finite a) (Finite 2) = Finite (a * 2)"
proof (cases "a = 0")
  case True
  then show ?thesis
    by (simp add: round_double_def)
next
  case False
  have "2 * a \<le> DBL_MAX"
    using assms(3) by (simp add: DBL_MAX_def)
  then have "round_double (2 * a) = Finite (2 * a)"
    using assms(1,2) False by (intro round_double_twice) (simp_all add: is_double_def)
  then show ?thesis
    by (simp add: mult.commute)
qed

text \<open>
  A NaN passes the range check of the 64-level branch, since both comparisons are false
  for it: it is stored, and the code written is the platform's conversion of a NaN.
\<close>

lemma hf_attenuation_64_NaN_accepted:
  "hf_attenuator_levels this = 64 \<Longrightarrow>
     sddc_set_hf_attenuation tr this w NaN =
       (let c = USB_DEVICE_SET_FW_REGISTER FW_REG_DAT31_ATT
                  (word_of_int (undefined_conversion tr NaN));
            r = ret tr (calls w) c
        in (r, this\<lparr>hf_attenuation := NaN\<rparr>, w\<lparr>calls := calls w @ [(c, r)]\<rparr>))"
  by (simp add: sddc_set_hf_attenuation_def call_def Let_def dgt_def to_uint16_def
      convert_def)

text \<open>
  Claim C7, as the code has it. On a handle with the 64-level attenuator,
  \<open>sddc_set_hf_attenuation\<close> accepts every double in \<open>[0, 31.5]\<close> and rejects every
  number outside it, the infinities included, with \<open>-1\<close> and the invalid-attenuation
  diagnostic, the handle unchanged. For an accepted value it writes the integer part of
  twice the value, a code between 0 and 63, to register \<open>FW_REG_DAT31_ATT\<close>, the
  register the 32-level class writes; the integer part is the rounded value whenever
  twice the value is an integer, that is on the 0.5 dB steps of the attenuator. Nothing
  is stated about a NaN.
\<close>

theorem set_hf_attenuation_64_level:
  "hf_attenuator_levels this = 64 \<Longrightarrow>
     (0 \<le> a \<and> a \<le> 31.5 \<and> is_double (Finite a) \<longrightarrow>
        sddc_set_hf_attenuation tr this w (Finite a) =
          (let c = USB_DEVICE_SET_FW_REGISTER FW_REG_DAT31_ATT (word_of_int \<lfloor>a * 2\<rfloor>);
               r = ret tr (calls w) c
           in (r, this\<lparr>hf_attenuation := Finite a\<rparr>, w\<lparr>calls := calls w @ [(c, r)]\<rparr>)) \<and>
        0 \<le> \<lfloor>a * 2\<rfloor> \<and> \<lfloor>a * 2\<rfloor> \<le> 63) \<and>
     (a < 0 \<or> 31.5 < a \<longrightarrow>
        sddc_set_hf_attenuation tr this w (Finite a) =
          (- 1, this,
           fprintf (DiagDouble ''ERROR - invalid HF attenuation: %lf'' (Finite a)) w)) \<and>
     sddc_set_hf_attenuation tr this w PInf =
       (- 1, this, fprintf (DiagDouble ''ERROR - invalid HF attenuation: %lf'' PInf) w) \<and>
     sddc_set_hf_attenuation tr this w NInf =
       (- 1, this, fprintf (DiagDouble ''ERROR - invalid HF attenuation: %lf'' NInf) w) \<and>
     (a * 2 \<in> \<int> \<longrightarrow> \<lfloor>a * 2\<rfloor> = round (a * 2)) \<and>
     (\<forall>this32 b. hf_attenuator_levels this32 = 32 \<and> 0 \<le> b \<and> b \<le> 31 \<longrightarrow>
        sddc_set_hf_attenuation tr this32 w (Finite b) =
          (let c = USB_DEVICE_SET_FW_REGISTER FW_REG_DAT31_ATT (word_of_int \<lfloor>b\<rfloor>);
               r = ret tr (calls w) c
           in (r, this32\<lparr>hf_attenuation := Finite b\<rparr>,
               w\<lparr>calls := calls w @ [(c, r)]\<rparr>)))"
proof (intro conjI impI allI)
  assume lv: "hf_attenuator_levels this = 64"
  {
    assume acc: "0 \<le> a \<and> a \<le> 31.5 \<and> is_double (Finite a)"
    then have "dmul (Finite a) (Finite 2) = Finite (a * 2)"
      by (intro dmul_two_exact) simp_all
    then have m: "round_double (a * 2) = Finite (a * 2)"
      by simp
    have f: "0 \<le> \<lfloor>a * 2\<rfloor>" "\<lfloor>a * 2\<rfloor> \<le> 63"
      using acc by (simp_all add: le_floor_iff floor_le_iff)
    have c: "to_uint16 tr (Finite (a * 2)) = word_of_int \<lfloor>a * 2\<rfloor>"
      using acc f by (simp add: to_uint16_def convert_def trunc_def)
    show "sddc_set_hf_attenuation tr this w (Finite a) =
          (let c = USB_DEVICE_SET_FW_REGISTER FW_REG_DAT31_ATT (word_of_int \<lfloor>a * 2\<rfloor>);
               r = ret tr (calls w) c
           in (r, this\<lparr>hf_attenuation := Finite a\<rparr>, w\<lparr>calls := calls w @ [(c, r)]\<rparr>))"
      using lv acc by (simp add: sddc_set_hf_attenuation_def call_def Let_def dgt_def m c)
    show "0 \<le> \<lfloor>a * 2\<rfloor>" "\<lfloor>a * 2\<rfloor> \<le> 63"
      using f by simp_all
  }
  {
    assume "a < 0 \<or> 31.5 < a"
    then show "sddc_set_hf_attenuation tr this w (Finite a) =
          (- 1, this,
           fprintf (DiagDouble ''ERROR - invalid HF attenuation: %lf'' (Finite a)) w)"
      using lv by (auto simp: sddc_set_hf_attenuation_def dgt_def)
  }
  show "sddc_set_hf_attenuation tr this w PInf =
       (- 1, this, fprintf (DiagDouble ''ERROR - invalid HF attenuation: %lf'' PInf) w)"
    using lv by (simp add: sddc_set_hf_attenuation_def dgt_def)
  show "sddc_set_hf_attenuation tr this w NInf =
       (- 1, this, fprintf (DiagDouble ''ERROR - invalid HF attenuation: %lf'' NInf) w)"
    using lv by (simp add: sddc_set_hf_attenuation_def dgt_def)
  {
    assume "a * 2 \<in> \<int>"
    then show "\<lfloor>a * 2\<rfloor> = round (a * 2)"
      by (auto simp: Ints_def)
  }
  {
    fix this32 :: sddc and b :: real
    assume b: "hf_attenuator_levels this32 = 32 \<and> 0 \<le> b \<and> b \<le> 31"
    then have "to_int tr (Finite b) = trunc b"
      by (intro to_int_Finite) auto
    then have c: "to_int tr (Finite b) = \<lfloor>b\<rfloor>"
      using b by (simp add: trunc_def)
    show "sddc_set_hf_attenuation tr this32 w (Finite b) =
          (let c = USB_DEVICE_SET_FW_REGISTER FW_REG_DAT31_ATT (word_of_int \<lfloor>b\<rfloor>);
               r = ret tr (calls w) c
           in (r, this32\<lparr>hf_attenuation := Finite b\<rparr>,
               w\<lparr>calls := calls w @ [(c, r)]\<rparr>))"
      using b
      by (simp add: sddc_set_hf_attenuation_def call_def Let_def dgt_def double_of_int_31 c)
  }
qed

theorem set_hf_attenuation_64_level_witness:
  "hf_attenuator_levels (opened HW_RX888R2) = 64 \<and> is_double (Finite 31.5) \<and>
   sddc_set_hf_attenuation (ok_transport HW_RX888R2) (opened HW_RX888R2) world0
       (Finite 31.5) =
     (0, (opened HW_RX888R2)\<lparr>hf_attenuation := Finite 31.5\<rparr>,
      \<lparr>calls = [(USB_DEVICE_SET_FW_REGISTER FW_REG_DAT31_ATT 63, 0)], stderr = []\<rparr>) \<and>
   sddc_set_hf_attenuation (ok_transport HW_RX888R2) (opened HW_RX888R2) world0 (Finite 32) =
     (- 1, opened HW_RX888R2,
      \<lparr>calls = [],
       stderr = [DiagDouble ''ERROR - invalid HF attenuation: %lf'' (Finite 32)]\<rparr>) \<and>
   hf_attenuator_levels (opened HW_HF103) = 32 \<and>
   sddc_set_hf_attenuation (ok_transport HW_RX888R2) (opened HW_HF103) world0 (Finite 7) =
     (0, (opened HW_HF103)\<lparr>hf_attenuation := Finite 7\<rparr>,
      \<lparr>calls = [(USB_DEVICE_SET_FW_REGISTER FW_REG_DAT31_ATT 7, 0)], stderr = []\<rparr>)"
proof -
  have h: "hf_attenuator_levels (opened HW_RX888R2) = 64"
    by (simp add: opened_RX888R2)
  have h32: "hf_attenuator_levels (opened HW_HF103) = 32"
    by (simp add: opened_HF103)
  have d: "is_double (Finite 31.5)"
    by (rule literal_doubles)
  note a = set_hf_attenuation_64_level [OF h, of "31.5" "ok_transport HW_RX888R2" world0]
  note b = set_hf_attenuation_64_level [OF h, of 32 "ok_transport HW_RX888R2" world0]
  from a have c: "sddc_set_hf_attenuation (ok_transport HW_RX888R2) (opened HW_HF103) world0
       (Finite 7) =
     (let c = USB_DEVICE_SET_FW_REGISTER FW_REG_DAT31_ATT (word_of_int \<lfloor>7 :: real\<rfloor>);
          r = ret (ok_transport HW_RX888R2) (calls world0) c
      in (r, (opened HW_HF103)\<lparr>hf_attenuation := Finite 7\<rparr>,
          world0\<lparr>calls := calls world0 @ [(c, r)]\<rparr>))"
    using h32 by simp
  show ?thesis
    using h h32 d a b c by (simp add: env_defs Let_def)
qed

text \<open>
  The claim as the specification states it fails on the written code: for the double
  nearest to 0.3 dB the rounded code is 1 and the code written is 0.
\<close>

theorem set_hf_attenuation_64_level_counterexample:
  "hf_attenuator_levels (opened HW_RX888R2) = 64 \<and>
   dbl 0.3 = Finite (5404319552844595 / 18014398509481984) \<and>
   sddc_set_hf_attenuation (ok_transport HW_RX888R2) (opened HW_RX888R2) world0 (dbl 0.3) =
     (0, (opened HW_RX888R2)\<lparr>hf_attenuation := dbl 0.3\<rparr>,
      \<lparr>calls = [(USB_DEVICE_SET_FW_REGISTER FW_REG_DAT31_ATT 0, 0)], stderr = []\<rparr>) \<and>
   (word_of_int (round (5404319552844595 / 18014398509481984 * 2 :: real)) :: 16 word) = 1 \<and>
   (1 :: 16 word) \<noteq> 0"
proof -
  have v: "dbl 0.3 = Finite (5404319552844595 / 18014398509481984)"
    by (simp add: double_eval)
  have m: "round_double (5404319552844595 / 9007199254740992) =
             Finite (5404319552844595 / 9007199254740992)"
    by (simp add: double_eval)
  show ?thesis
    by (simp add: v m opened_RX888R2 sddc_set_hf_attenuation_def dgt_def conv_defs
        round_def env_defs Let_def)
qed

text \<open>
  Claim C9. On a handle without an HF attenuator (\<open>hf_attenuator_levels = 0\<close>),
  \<open>sddc_set_hf_attenuation\<close> returns 0 for every value with the handle and the world
  unchanged: no call is made and nothing is printed. The same holds for
  \<open>sddc_set_hf_vga_gain\<close> on a handle without a VGA (\<open>hf_vga_levels = 0\<close>). A handle
  opened on a model byte that is none of the four known models has neither.
\<close>

theorem setters_without_hardware_are_noops:
  "(hf_attenuator_levels this = 0 \<longrightarrow>
      sddc_set_hf_attenuation tr this w a = (0, this, w)) \<and>
   (hf_vga_levels this = 0 \<longrightarrow>
      sddc_set_hf_vga_gain tr this w idx = (0, this, w)) \<and>
   (m \<notin> {HW_BBRF103, HW_HF103, HW_RX888, HW_RX888R2} \<and> testfx3 tr = (m, d1, d2, d3) \<and>
    sddc_open tr w i = (Some this', w') \<longrightarrow>
      hf_attenuator_levels this' = 0 \<and> hf_vga_levels this' = 0)"
  by (auto simp: sddc_set_hf_attenuation_def sddc_set_hf_vga_gain_def sddc_open_def Let_def
      split: option.splits prod.splits if_splits)

theorem setters_without_hardware_are_noops_witness:
  "hf_attenuator_levels (opened HW_NORADIO) = 0 \<and>
   hf_vga_levels (opened HW_NORADIO) = 0 \<and>
   sddc_set_hf_attenuation (bad_transport HW_NORADIO) (opened HW_NORADIO) world0 (Finite 99) =
     (0, opened HW_NORADIO, world0) \<and>
   sddc_set_hf_vga_gain (bad_transport HW_NORADIO) (opened HW_NORADIO) world0 500 =
     (0, opened HW_NORADIO, world0) \<and>
   HW_RX999 \<notin> {HW_BBRF103, HW_HF103, HW_RX888, HW_RX888R2} \<and>
   hf_attenuator_levels (opened HW_RX999) = 0 \<and> hf_vga_levels (opened HW_RX999) = 0"
proof -
  have h: "hf_attenuator_levels (opened HW_NORADIO) = 0 \<and> hf_vga_levels (opened HW_NORADIO) = 0"
    by (simp add: opened_NORADIO)
  have m: "HW_RX999 \<notin> {HW_BBRF103, HW_HF103, HW_RX888, HW_RX888R2}"
    by (simp add: hw_defs)
  have t: "testfx3 (ok_transport HW_RX999) = (HW_RX999, 1, 2, 0)"
    by (simp add: ok_transport_def)
  have o: "sddc_open (ok_transport HW_RX999) world0 0 =
             (Some (opened HW_RX999), snd (sddc_open (ok_transport HW_RX999) world0 0))"
    by (simp add: opened_def sddc_open_def env_defs Let_def)
  show ?thesis
    using h m t o
      setters_without_hardware_are_noops [of "opened HW_NORADIO" "bad_transport HW_NORADIO"
        world0 "Finite 99" 500 HW_RX999 1 2 0 0 "opened HW_RX999"
        "snd (sddc_open (ok_transport HW_RX999) world0 0)"]
      setters_without_hardware_are_noops [of "opened HW_NORADIO" "ok_transport HW_RX999"
        world0 "Finite 99" 500 HW_RX999 1 2 0 0 "opened HW_RX999"
        "snd (sddc_open (ok_transport HW_RX999) world0 0)"]
    by simp
qed

section \<open>Opening a device: defaults and initial state\<close>

text \<open>
  Claim C8. The handle of every successful \<open>sddc_open\<close> has sample rate 64 MHz, tuner
  frequency 999 kHz, HF attenuation 0 dB, VGA gain code \<open>0x25\<close> (37, inside the range 0
  to 127 of the VGA), frequency correction 0 ppm and tuner clock 0.
\<close>

theorem open_defaults:
  "sddc_open tr w i = (Some this, w') \<Longrightarrow>
     sample_rate this = Finite 64000000 \<and> tuner_frequency this = Finite 999000 \<and>
     hf_attenuation this = Finite 0 \<and> hf_vga_gain this = 0x25 \<and>
     0 < hf_vga_gain this \<and> hf_vga_gain this < 127 \<and>
     freq_corr_ppm this = Finite 0 \<and> tuner_clock this = Finite 0"
  by (auto simp: sddc_open_def Let_def DEFAULT_SAMPLE_RATE_def DEFAULT_TUNER_FREQUENCY_def
      DEFAULT_HF_ATTENUATION_def DEFAULT_FREQ_CORR_PPM_def
      split: option.splits prod.splits if_splits)

theorem open_defaults_witness:
  "sddc_open (ok_transport HW_RX888) world0 0 =
     (Some (opened HW_RX888),
      \<lparr>calls = [(USB_DEVICE_CONTROL TESTFX3 NoData, 0)], stderr = []\<rparr>) \<and>
   sample_rate (opened HW_RX888) = Finite 64000000 \<and>
   tuner_frequency (opened HW_RX888) = Finite 999000 \<and>
   hf_attenuation (opened HW_RX888) = Finite 0 \<and> hf_vga_gain (opened HW_RX888) = 37 \<and>
   freq_corr_ppm (opened HW_RX888) = Finite 0 \<and> tuner_clock (opened HW_RX888) = Finite 0"
proof -
  have o: "sddc_open (ok_transport HW_RX888) world0 0 =
     (Some (opened HW_RX888),
      \<lparr>calls = [(USB_DEVICE_CONTROL TESTFX3 NoData, 0)], stderr = []\<rparr>)"
    by (simp add: opened_def sddc_open_def env_defs Let_def)
  show ?thesis
    using o open_defaults [OF o] by simp
qed

text \<open>
  Claim C10. The handle of every successful \<open>sddc_open\<close> has status READY and RF mode
  HF, never \<open>NO_RF_MODE\<close>, whatever model byte the device reports.
\<close>

theorem open_status_and_rf_mode:
  "sddc_open tr w i = (Some this, w') \<Longrightarrow>
     sddc_get_status this = SDDC_STATUS_READY \<and> sddc_get_rf_mode this = HF_MODE \<and>
     sddc_get_rf_mode this \<noteq> NO_RF_MODE"
  by (auto simp: sddc_open_def Let_def sddc_get_status_def sddc_get_rf_mode_def
      split: option.splits prod.splits if_splits)

theorem open_status_and_rf_mode_witness:
  "sddc_open (ok_transport 200) world0 3 =
     (Some (opened 200), \<lparr>calls = [(USB_DEVICE_CONTROL TESTFX3 NoData, 0)], stderr = []\<rparr>) \<and>
   sddc_get_status (opened 200) = SDDC_STATUS_READY \<and>
   sddc_get_rf_mode (opened 200) = HF_MODE"
proof -
  have o: "sddc_open (ok_transport 200) world0 3 =
     (Some (opened 200), \<lparr>calls = [(USB_DEVICE_CONTROL TESTFX3 NoData, 0)], stderr = []\<rparr>)"
    by (simp add: opened_def sddc_open_def env_defs Let_def)
  show ?thesis
    using o open_status_and_rf_mode [OF o] by simp
qed

section \<open>Frequency correction\<close>

text \<open>
  Claim C6. \<open>sddc_set_frequency_correction\<close> returns \<open>-1\<close> with the handle unchanged
  when the status is STREAMING. In every other status it returns 0 and stores exactly
  the requested value, which \<open>sddc_get_frequency_correction\<close> then returns; no other
  field changes.
\<close>

theorem set_frequency_correction_guard:
  "sddc_set_frequency_correction this w c = (r, this', w') \<Longrightarrow>
     (status this = SDDC_STATUS_STREAMING \<longrightarrow>
        r = - 1 \<and> this' = this \<and> calls w' = calls w) \<and>
     (status this \<noteq> SDDC_STATUS_STREAMING \<longrightarrow>
        r = 0 \<and> this' = this\<lparr>freq_corr_ppm := c\<rparr> \<and> w' = w \<and>
        sddc_get_frequency_correction this' = c)"
  by (auto simp: sddc_set_frequency_correction_def sddc_get_frequency_correction_def
      fprintf_def)

theorem set_frequency_correction_guard_witness:
  "sddc_set_frequency_correction (opened HW_RX888) world0 (Finite 2.5) =
     (0, (opened HW_RX888)\<lparr>freq_corr_ppm := Finite 2.5\<rparr>, world0) \<and>
   sddc_get_frequency_correction ((opened HW_RX888)\<lparr>freq_corr_ppm := Finite 2.5\<rparr>) = Finite 2.5 \<and>
   fst (sddc_set_frequency_correction
          ((opened HW_RX888)\<lparr>status := SDDC_STATUS_STREAMING\<rparr>) world0 (Finite 2.5)) = - 1 \<and>
   fst (snd (sddc_set_frequency_correction
          ((opened HW_RX888)\<lparr>status := SDDC_STATUS_STREAMING\<rparr>) world0 (Finite 2.5))) =
     (opened HW_RX888)\<lparr>status := SDDC_STATUS_STREAMING\<rparr>"
proof -
  have a: "sddc_set_frequency_correction (opened HW_RX888) world0 (Finite 2.5) =
     (0, (opened HW_RX888)\<lparr>freq_corr_ppm := Finite 2.5\<rparr>, world0)"
    by (simp add: sddc_set_frequency_correction_def opened_RX888)
  have b: "sddc_set_frequency_correction
             ((opened HW_RX888)\<lparr>status := SDDC_STATUS_STREAMING\<rparr>) world0 (Finite 2.5) =
     (- 1, (opened HW_RX888)\<lparr>status := SDDC_STATUS_STREAMING\<rparr>,
      fprintf (Diag
        ''ERROR - sddc_set_frequency_correction() failed - device is streaming'') world0)"
    by (simp add: sddc_set_frequency_correction_def)
  show ?thesis
    using a b set_frequency_correction_guard [OF a] set_frequency_correction_guard [OF b]
    by simp
qed

section \<open>Tuner attenuation search\<close>

lemma scan_NaN: "scan NaN ts i idx d = idx"
  by (induction ts arbitrary: i) simp_all

lemma scan_nearest:
  assumes "tbl = pre @ ts" and "length pre = i" and "idx < i"
    and "d = fabs (dsub a (tbl ! idx))"
    and "\<forall>j<length tbl. fabs (dsub a (tbl ! j)) \<noteq> NaN"
    and "\<forall>j<i. dle d (fabs (dsub a (tbl ! j)))"
    and "\<forall>j<idx. dlt d (fabs (dsub a (tbl ! j)))"
  shows "scan a ts i idx d < length tbl \<and>
         (\<forall>j<length tbl. dle (fabs (dsub a (tbl ! scan a ts i idx d)))
                             (fabs (dsub a (tbl ! j)))) \<and>
         (\<forall>j. j < scan a ts i idx d \<longrightarrow>
              dlt (fabs (dsub a (tbl ! scan a ts i idx d))) (fabs (dsub a (tbl ! j))))"
  using assms
proof (induction ts arbitrary: pre i idx d)
  case Nil
  then show ?case by simp
next
  case (Cons t ts)
  define att where "att = fabs (dsub a t)"
  have ti: "tbl ! i = t"
    using Cons.prems(1,2) by (auto simp: nth_append)
  have split: "tbl = (pre @ [t]) @ ts" and len: "length (pre @ [t]) = Suc i"
    using Cons.prems(1,2) by simp_all
  have il: "i < length tbl"
    using Cons.prems(1,2) by simp
  have an: "att \<noteq> NaN"
    using Cons.prems(5) il ti by (auto simp: att_def)
  have dn: "d \<noteq> NaN"
    using Cons.prems(3,6) by (auto simp: dle_def)
  show ?case
  proof (cases "dlt att d")
    case True
    have "\<forall>j<Suc i. dle att (fabs (dsub a (tbl ! j)))"
      using True Cons.prems(6) ti an
      by (auto simp: less_Suc_eq att_def [symmetric] dle_refl intro: dlt_dle_dle)
    moreover have "\<forall>j<i. dlt att (fabs (dsub a (tbl ! j)))"
      using True Cons.prems(6) by (auto intro: dlt_dle_trans)
    ultimately show ?thesis
      using Cons.IH [OF split len, of i att] True ti Cons.prems(5)
      by (simp add: att_def [symmetric])
  next
    case False
    have "dle d att"
      using False an dn by (simp add: dle_def)
    then have "\<forall>j<Suc i. dle d (fabs (dsub a (tbl ! j)))"
      using Cons.prems(6) ti by (auto simp: less_Suc_eq att_def [symmetric])
    then show ?thesis
      using Cons.IH [OF split len, of idx d] False Cons.prems(3,4,5,7)
      by (simp add: att_def [symmetric])
  qed
qed

lemma nearest_index_min:
  assumes "tbl \<noteq> []" and "\<forall>j<length tbl. fabs (dsub a (tbl ! j)) \<noteq> NaN"
  shows "nearest_index tbl a < length tbl \<and>
         (\<forall>j<length tbl. dle (fabs (dsub a (tbl ! nearest_index tbl a)))
                             (fabs (dsub a (tbl ! j)))) \<and>
         (\<forall>j. j < nearest_index tbl a \<longrightarrow>
              dlt (fabs (dsub a (tbl ! nearest_index tbl a))) (fabs (dsub a (tbl ! j))))"
proof -
  have s: "tbl = [hd tbl] @ tl tbl"
    using assms(1) by simp
  have h: "tbl ! 0 = hd tbl"
    using assms(1) by (simp add: hd_conv_nth)
  have n: "fabs (dsub a (hd tbl)) \<noteq> NaN"
    using assms h by (metis length_greater_0_conv)
  show ?thesis
    unfolding nearest_index_def
    using scan_nearest [of tbl "[hd tbl]" "tl tbl" 1 0 "fabs (dsub a (hd tbl))" a]
      s h n assms(2)
    by (simp del: One_nat_def add: less_Suc_eq dle_refl)
qed

lemma nearest_index_NaN: "nearest_index tbl NaN = 0"
  by (simp add: nearest_index_def scan_NaN)

lemma rf_table_length: "length tuner_rf_attenuations_table = 29"
  by (simp add: tuner_rf_attenuations_table_def)

lemma rf_table_finite: "\<forall>t\<in>set tuner_rf_attenuations_table. t \<notin> {NaN, PInf, NInf}"
  by (simp add: rf_table_values)

lemma rf_distance_not_NaN:
  assumes "a \<noteq> NaN" and "j < 29"
  shows "fabs (dsub a (tuner_rf_attenuations_table ! j)) \<noteq> NaN"
proof -
  have "tuner_rf_attenuations_table ! j \<in> set tuner_rf_attenuations_table"
    using assms(2) by (simp add: rf_table_length)
  then have "tuner_rf_attenuations_table ! j \<notin> {NaN, PInf, NInf}"
    using rf_table_finite by blast
  then obtain x where "tuner_rf_attenuations_table ! j = Finite x"
    by (cases "tuner_rf_attenuations_table ! j") simp_all
  then show ?thesis
    using distance_not_NaN [OF assms(1)] by simp
qed

lemma rf_table_4: "tuner_rf_attenuations_table ! 4 = dbl 3.7"
  by (simp add: tuner_rf_attenuations_table_def)

text \<open>
  Claim C4, as the code has it. For every requested value that is not a NaN,
  \<open>sddc_set_tuner_rf_attenuation\<close> writes to register \<open>FW_REG_R82XX_ATTENUATOR\<close> an
  index of the 29-entry table whose distance from the request, computed as the code
  computes it (the double difference, then \<^verbatim>\<open>fabs\<close>), is at most the distance of every
  other entry and strictly less than the distance of every entry of lower index (so the
  lower index wins when two computed distances are equal). For a NaN it writes index 0.
  When the write succeeds it returns 0 and reports the table entry at the index
  written. A request of 5.0 selects index 4, whose entry is the double 3.7.
\<close>

theorem set_tuner_rf_attenuation_nearest:
  "(let tbl = tuner_rf_attenuations_table; idx = nearest_index tbl a;
        dist = (\<lambda>i. fabs (dsub a (tbl ! i)));
        c = USB_DEVICE_SET_FW_REGISTER FW_REG_R82XX_ATTENUATOR (of_nat idx);
        r = ret tr (calls w) c;
        w1 = w\<lparr>calls := calls w @ [(c, r)]\<rparr>
    in length tbl = 29 \<and> idx < 29 \<and>
       (a \<noteq> NaN \<longrightarrow>
          (\<forall>j<29. dle (dist idx) (dist j)) \<and> (\<forall>j<idx. dlt (dist idx) (dist j))) \<and>
       (a = NaN \<longrightarrow> idx = 0) \<and>
       unat (of_nat idx :: 16 word) = idx \<and>
       sddc_set_tuner_rf_attenuation tr this w a =
         (if r < 0 then
            (- 1, this, fprintf (Diag
               ''ERROR - usb_device_set_fw_register(FW_REG_R82XX_ATTENUATOR) failed'') w1)
          else
            (0, this, fprintf (DiagDouble ''INFO - RF tuner attenuation set to %.1f''
                                 (tbl ! idx)) w1))) \<and>
   nearest_index tuner_rf_attenuations_table (Finite 5) = 4 \<and>
   tuner_rf_attenuations_table ! 4 = dbl 3.7"
proof -
  have ne: "tuner_rf_attenuations_table \<noteq> []"
    by (simp add: tuner_rf_attenuations_table_def)
  have lt: "nearest_index tuner_rf_attenuations_table a < 29"
  proof (cases "a = NaN")
    case True
    then show ?thesis by (simp add: nearest_index_NaN)
  next
    case False
    then show ?thesis
      using nearest_index_min [OF ne, of a] rf_distance_not_NaN
      by (simp add: rf_table_length)
  qed
  have m: "(\<forall>j<29. dle (fabs (dsub a (tuner_rf_attenuations_table !
                        nearest_index tuner_rf_attenuations_table a)))
                     (fabs (dsub a (tuner_rf_attenuations_table ! j)))) \<and>
           (\<forall>j<nearest_index tuner_rf_attenuations_table a.
               dlt (fabs (dsub a (tuner_rf_attenuations_table !
                        nearest_index tuner_rf_attenuations_table a)))
                   (fabs (dsub a (tuner_rf_attenuations_table ! j))))"
    if "a \<noteq> NaN"
    using nearest_index_min [OF ne, of a] rf_distance_not_NaN [OF that]
    by (simp add: rf_table_length)
  have u: "unat (of_nat (nearest_index tuner_rf_attenuations_table a) :: 16 word)
             = nearest_index tuner_rf_attenuations_table a"
    using lt by (simp add: unat_of_nat)
  show ?thesis
    using lt m u rf_nearest_5 rf_table_4
    by (simp add: Let_def rf_table_length sddc_set_tuner_rf_attenuation_def call_def
        nearest_index_NaN)
qed

theorem set_tuner_rf_attenuation_nearest_witness:
  "nearest_index tuner_rf_attenuations_table (Finite 5) = 4 \<and>
   Finite 5 \<noteq> NaN \<and> (5 :: nat) < 29 \<and> (3 :: nat) < 4 \<and>
   dle (fabs (dsub (Finite 5) (tuner_rf_attenuations_table ! 4)))
       (fabs (dsub (Finite 5) (tuner_rf_attenuations_table ! 5))) \<and>
   dlt (fabs (dsub (Finite 5) (tuner_rf_attenuations_table ! 4)))
       (fabs (dsub (Finite 5) (tuner_rf_attenuations_table ! 3))) \<and>
   sddc_set_tuner_rf_attenuation (ok_transport HW_RX888) (opened HW_RX888) world0 (Finite 5) =
     (0, opened HW_RX888,
      \<lparr>calls = [(USB_DEVICE_SET_FW_REGISTER FW_REG_R82XX_ATTENUATOR 4, 0)],
       stderr = [DiagDouble ''INFO - RF tuner attenuation set to %.1f'' (dbl 3.7)]\<rparr>) \<and>
   nearest_index tuner_rf_attenuations_table NaN = 0 \<and>
   nearest_index tuner_rf_attenuations_table (Finite 31.25) = 17"
proof -
  note t = set_tuner_rf_attenuation_nearest
             [of "Finite 5" "ok_transport HW_RX888" world0 "opened HW_RX888",
              unfolded Let_def]
  note n = set_tuner_rf_attenuation_nearest
             [of NaN "ok_transport HW_RX888" world0 "opened HW_RX888", unfolded Let_def]
  have i: "nearest_index tuner_rf_attenuations_table (Finite 5) = 4"
    using t by blast
  note t4 = t [unfolded i]
  have "\<forall>j<29. dle (fabs (dsub (Finite 5) (tuner_rf_attenuations_table ! 4)))
                   (fabs (dsub (Finite 5) (tuner_rf_attenuations_table ! j)))"
    using t4 by blast
  then have le: "dle (fabs (dsub (Finite 5) (tuner_rf_attenuations_table ! 4)))
                     (fabs (dsub (Finite 5) (tuner_rf_attenuations_table ! 5)))"
    by simp
  have "\<forall>j<4. dlt (fabs (dsub (Finite 5) (tuner_rf_attenuations_table ! 4)))
                  (fabs (dsub (Finite 5) (tuner_rf_attenuations_table ! j)))"
    using t4 by blast
  then have lt: "dlt (fabs (dsub (Finite 5) (tuner_rf_attenuations_table ! 4)))
                     (fabs (dsub (Finite 5) (tuner_rf_attenuations_table ! 3)))"
    by simp
  have e: "tuner_rf_attenuations_table ! 4 = dbl 3.7"
    using t by blast
  have "sddc_set_tuner_rf_attenuation (ok_transport HW_RX888) (opened HW_RX888) world0
          (Finite 5) =
     (if ret (ok_transport HW_RX888) (calls world0)
           (USB_DEVICE_SET_FW_REGISTER FW_REG_R82XX_ATTENUATOR (of_nat 4)) < 0
      then (- 1, opened HW_RX888, fprintf (Diag
               ''ERROR - usb_device_set_fw_register(FW_REG_R82XX_ATTENUATOR) failed'')
             (world0\<lparr>calls := calls world0 @
                [(USB_DEVICE_SET_FW_REGISTER FW_REG_R82XX_ATTENUATOR (of_nat 4),
                  ret (ok_transport HW_RX888) (calls world0)
                    (USB_DEVICE_SET_FW_REGISTER FW_REG_R82XX_ATTENUATOR (of_nat 4)))]\<rparr>))
      else (0, opened HW_RX888,
            fprintf (DiagDouble ''INFO - RF tuner attenuation set to %.1f''
                       (tuner_rf_attenuations_table ! 4))
             (world0\<lparr>calls := calls world0 @
                [(USB_DEVICE_SET_FW_REGISTER FW_REG_R82XX_ATTENUATOR (of_nat 4),
                  ret (ok_transport HW_RX888) (calls world0)
                    (USB_DEVICE_SET_FW_REGISTER FW_REG_R82XX_ATTENUATOR (of_nat 4)))]\<rparr>)))"
    using t4 by blast
  then have s: "sddc_set_tuner_rf_attenuation (ok_transport HW_RX888) (opened HW_RX888)
                  world0 (Finite 5) =
     (0, opened HW_RX888,
      \<lparr>calls = [(USB_DEVICE_SET_FW_REGISTER FW_REG_R82XX_ATTENUATOR 4, 0)],
       stderr = [DiagDouble ''INFO - RF tuner attenuation set to %.1f'' (dbl 3.7)]\<rparr>)"
    by (simp add: e env_defs)
  have z: "nearest_index tuner_rf_attenuations_table NaN = 0"
    using n by blast
  show ?thesis
    using i le lt s z rf_nearest_31_25 by simp
qed

text \<open>
  The claim as the specification states it fails: for a request of \<open>10\<^sup>1\<^sup>8\<close>, a double,
  every computed distance rounds to \<open>10\<^sup>1\<^sup>8\<close>, and the index written is 0 (reported value
  0.0), although entry 28, the double 49.6, is strictly closer to the request than
  entry 0.
\<close>

theorem set_tuner_rf_attenuation_nearest_counterexample:
  "is_double (Finite 1000000000000000000) \<and>
   sddc_set_tuner_rf_attenuation (ok_transport HW_RX888) (opened HW_RX888) world0
       (Finite 1000000000000000000) =
     (0, opened HW_RX888,
      \<lparr>calls = [(USB_DEVICE_SET_FW_REGISTER FW_REG_R82XX_ATTENUATOR 0, 0)],
       stderr = [DiagDouble ''INFO - RF tuner attenuation set to %.1f'' (Finite 0)]\<rparr>) \<and>
   tuner_rf_attenuations_table ! 0 = Finite 0 \<and>
   tuner_rf_attenuations_table ! 28 = Finite (6980579422424269 / 140737488355328) \<and>
   \<bar>1000000000000000000 - 6980579422424269 / 140737488355328 :: real\<bar>
     < \<bar>1000000000000000000 - 0\<bar> \<and>
   \<bar>1000000000000000000 - 49.6 :: real\<bar> < \<bar>1000000000000000000 - 0\<bar>"
proof -
  have d: "is_double (Finite 1000000000000000000)"
    by (simp add: is_double_def double_eval)
  have v: "tuner_rf_attenuations_table ! 0 = Finite 0"
    "tuner_rf_attenuations_table ! 28 = Finite (6980579422424269 / 140737488355328)"
    by (simp_all add: rf_table_values)
  show ?thesis
    using d v
    by (simp add: sddc_set_tuner_rf_attenuation_def rf_nearest_1e18 env_defs Let_def)
qed

section \<open>Persistence of the configuration\<close>







end
